theory Spec2Isabelle
  imports Main
begin

section \<open>Data of \<open>xbstrap/vcs_utils.py\<close>\<close>

text \<open>
  The module decides whether the working copy of a source is there and current
  (\<open>check_repo\<close>) and fetches it (\<open>fetch_repo\<close>). A source is described by a
  dictionary read from YAML (\<open>src._this_yml\<close>); which origin it has is decided by
  membership tests on that dictionary, in the order git, hg, svn, url.
\<close>

datatype RepoStatus = GOOD | MISSING | OUTDATED

text \<open>
  A value of the YAML dictionary: \<open>None\<close>, a boolean or a string. Strings of the
  descriptor and of argument vectors are byte strings here.
\<close>

datatype yaml = YNull | YBool bool | YStr string

text \<open>Python's truth value of such an object, as \<open>not x\<close> reads it.\<close>

fun truthy :: "yaml \<Rightarrow> bool" where
  "truthy YNull = False"
| "truthy (YBool b) = b"
| "truthy (YStr s) = (s \<noteq> [])"

text \<open>
  The attributes of \<open>src\<close> that the module reads: \<open>src.name\<close>,
  \<open>src._this_yml\<close>, \<open>src.source_dir\<close>, \<open>src.source_archive_file\<close> and
  \<open>src.is_rolling_version\<close>.
\<close>

record source =
  name :: string
  this_yml :: "string \<rightharpoonup> yaml"
  source_dir :: string
  source_archive_file :: string
  is_rolling_version :: bool

text \<open>
  Of \<open>cfg\<close> only \<open>cfg._commit_yml\<close> is read, and of it the entry
  \<open>'commits'\<close>: a dictionary from source names to pin records. \<open>commits\<close> is
  \<open>None\<close> when the key is absent.
\<close>

record config =
  commits :: "(string \<rightharpoonup> (string \<rightharpoonup> yaml)) option"

text \<open>The exceptions that leave the two functions.\<close>

datatype error =
    KeyError string
  | TypeError
  | AttributeError
  | AssertionError
  | ValueError
  | NameError string
  | GenericException string
  | CalledProcessError int
  | UnicodeDecodeError
  | OSError
  | URLError

section \<open>The environment\<close>

text \<open>
  What a subprocess did: it could not be started (the executable or the working
  directory is not there), or it ran and left an exit status and the bytes of its
  standard output.
\<close>

datatype proc = Cannot_start | Exited int string

text \<open>
  The file system, the search path and the external tools answer the questions of
  the module. One call of \<open>check_repo\<close> or of \<open>fetch_repo\<close> asks each question
  at most once (the argument vectors of its subprocesses differ pairwise), so one
  answer per question describes every run.
\<close>

record world =
  isdir :: "string \<Rightarrow> bool"
  access_F_OK :: "string \<Rightarrow> bool"
  which :: "string \<Rightarrow> string option"
  run :: "string list \<Rightarrow> string option \<Rightarrow> proc"
  mkdir_fails :: "string \<Rightarrow> bool"
  urlopen_fails :: "string \<Rightarrow> bool"
  write_fails :: "string \<Rightarrow> bool"

text \<open>
  Every interaction with the environment is recorded in the order it happens. A
  subprocess is recorded with its argument vector and its \<open>cwd\<close>.
\<close>

datatype event =
    IsDir string
  | Access string
  | Which string
  | TryMkdir string
  | Run "string list" "string option"
  | UrlOpen string
  | WriteFile string
  | LogInfo string

text \<open>A computation yields the events it caused and an exception or a value.\<close>

type_synonym 'a io = "event list \<times> (error + 'a)"

definition ret :: "'a \<Rightarrow> 'a io" where
  "ret x = ([], Inr x)"

definition raise :: "error \<Rightarrow> 'a io" where
  "raise e = ([], Inl e)"

text \<open>\<open>pre t m\<close> is the computation \<open>m\<close> after the events \<open>t\<close>.\<close>

definition pre :: "event list \<Rightarrow> 'a io \<Rightarrow> 'a io" where
  "pre t m = (t @ fst m, snd m)"

text \<open>Sequencing: an exception ends the computation with the events so far.\<close>

definition bnd :: "'a io \<Rightarrow> ('a \<Rightarrow> 'b io) \<Rightarrow> 'b io" where
  "bnd m f =
     (case m of
        (t, Inl e) \<Rightarrow> (t, Inl e)
      | (t, Inr x) \<Rightarrow> pre t (f x))"

definition os_path_isdir :: "world \<Rightarrow> string \<Rightarrow> bool io" where
  "os_path_isdir w p = ([IsDir p], Inr (isdir w p))"

definition os_access :: "world \<Rightarrow> string \<Rightarrow> bool io" where
  "os_access w p = ([Access p], Inr (access_F_OK w p))"

definition shutil_which :: "world \<Rightarrow> string \<Rightarrow> string option io" where
  "shutil_which w n = ([Which n], Inr (which w n))"

text \<open>
  Modelled from the spec: \<open>_util.log_info\<close> lives in \<open>xbstrap/util.py\<close>, which
  is not part of the sources at hand. The specification keeps logging outside of
  this layer; here it is one event that carries the message and cannot fail.
\<close>

definition log_info :: "string \<Rightarrow> unit io" where
  "log_info msg = ([LogInfo msg], Inr ())"

text \<open>
  An argument vector is a Python list and may hold any object; \<open>subprocess\<close>
  raises \<open>TypeError\<close> on an element that is not a string, before anything runs.
\<close>

fun argv_of :: "yaml list \<Rightarrow> string list option" where
  "argv_of [] = Some []"
| "argv_of (YStr s # ys) = map_option ((#) s) (argv_of ys)"
| "argv_of (_ # ys) = None"

text \<open>\<open>subprocess.call\<close>: the exit status.\<close>

definition subprocess_call :: "world \<Rightarrow> yaml list \<Rightarrow> string option \<Rightarrow> int io" where
  "subprocess_call w args cwd =
     (case argv_of args of
        None \<Rightarrow> raise TypeError
      | Some argv \<Rightarrow>
          (case run w argv cwd of
             Cannot_start \<Rightarrow> ([Run argv cwd], Inl OSError)
           | Exited rc out \<Rightarrow> ([Run argv cwd], Inr rc)))"

text \<open>\<open>subprocess.check_call\<close>: \<open>CalledProcessError\<close> on a non-zero status.\<close>

definition check_call :: "world \<Rightarrow> yaml list \<Rightarrow> string option \<Rightarrow> unit io" where
  "check_call w args cwd =
     bnd (subprocess_call w args cwd)
       (\<lambda>rc. if rc = 0 then ret () else raise (CalledProcessError rc))"

text \<open>\<open>subprocess.check_output\<close>: the bytes of standard output on status zero.\<close>

definition check_output :: "world \<Rightarrow> yaml list \<Rightarrow> string option \<Rightarrow> string io" where
  "check_output w args cwd =
     (case argv_of args of
        None \<Rightarrow> raise TypeError
      | Some argv \<Rightarrow>
          (case run w argv cwd of
             Cannot_start \<Rightarrow> ([Run argv cwd], Inl OSError)
           | Exited rc out \<Rightarrow>
               ([Run argv cwd], if rc = 0 then Inr out else Inl (CalledProcessError rc))))"

section \<open>Python's string operations\<close>

text \<open>
  \<open>bytes.decode()\<close> is strict UTF-8: the result is the list of code points, and
  \<open>None\<close> stands for \<open>UnicodeDecodeError\<close> (a stray or missing continuation
  byte, an overlong form, a surrogate, a value above \<open>0x10FFFF\<close>).
\<close>

definition is_cont :: "char \<Rightarrow> bool" where
  "is_cont c = (128 \<le> (of_char c :: nat) \<and> (of_char c :: nat) < 192)"

definition cont_bits :: "char \<Rightarrow> nat" where
  "cont_bits c = of_char c - 128"

fun decode :: "string \<Rightarrow> nat list option" where
  "decode [] = Some []"
| "decode (c # cs) =
     (let b = (of_char c :: nat) in
      if b < 128 then map_option ((#) b) (decode cs)
      else if 194 \<le> b \<and> b < 224 then
        (case cs of
           c1 # r \<Rightarrow>
             if is_cont c1
             then map_option ((#) ((b - 192) * 64 + cont_bits c1)) (decode r)
             else None
         | _ \<Rightarrow> None)
      else if 224 \<le> b \<and> b < 240 then
        (case cs of
           c1 # c2 # r \<Rightarrow>
             (let cp = (b - 224) * 4096 + cont_bits c1 * 64 + cont_bits c2 in
              if is_cont c1 \<and> is_cont c2 \<and> 2048 \<le> cp \<and> \<not> (55296 \<le> cp \<and> cp < 57344)
              then map_option ((#) cp) (decode r)
              else None)
         | _ \<Rightarrow> None)
      else if 240 \<le> b \<and> b < 245 then
        (case cs of
           c1 # c2 # c3 # r \<Rightarrow>
             (let cp = (b - 240) * 262144 + cont_bits c1 * 4096
                       + cont_bits c2 * 64 + cont_bits c3 in
              if is_cont c1 \<and> is_cont c2 \<and> is_cont c3 \<and> 65536 \<le> cp \<and> cp < 1114112
              then map_option ((#) cp) (decode r)
              else None)
         | _ \<Rightarrow> None)
      else None)"

text \<open>
  \<open>str.splitlines()\<close>: the code points that end a line are LF, VT, FF, CR, FS, GS,
  RS, NEL, LS and PS; CR LF ends one line; the line ends are dropped; an empty
  last piece is not a line.
\<close>

definition is_linebreak :: "nat \<Rightarrow> bool" where
  "is_linebreak c = (c \<in> {10, 11, 12, 13, 28, 29, 30, 133, 8232, 8233})"

fun splitlines_from :: "nat list \<Rightarrow> nat list \<Rightarrow> nat list list" where
  "splitlines_from acc [] = (if acc = [] then [] else [rev acc])"
| "splitlines_from acc (c # cs) =
     (if c = 13 then
        (case cs of
           d # r \<Rightarrow> if d = 10 then rev acc # splitlines_from [] r
                    else rev acc # splitlines_from [] cs
         | [] \<Rightarrow> rev acc # splitlines_from [] cs)
      else if is_linebreak c then rev acc # splitlines_from [] cs
      else splitlines_from (c # acc) cs)"

definition splitlines :: "nat list \<Rightarrow> nat list list" where
  "splitlines s = splitlines_from [] s"

text \<open>
  \<open>str.split(sep)\<close> for a separator of one character, the only use the module
  makes of it: every occurrence of the separator cuts, empty pieces are kept.
\<close>

fun split_at :: "nat \<Rightarrow> nat list \<Rightarrow> nat list list" where
  "split_at sep [] = [[]]"
| "split_at sep (c # cs) =
     (if c = sep then [] # split_at sep cs
      else (case split_at sep cs of
              p # ps \<Rightarrow> (c # p) # ps
            | [] \<Rightarrow> [[c]]))"

text \<open>\<open>d[k]\<close> raises \<open>KeyError\<close> on an absent key.\<close>

definition subscript :: "(string \<rightharpoonup> yaml) \<Rightarrow> string \<Rightarrow> yaml io" where
  "subscript d k = (case d k of None \<Rightarrow> raise (KeyError k) | Some v \<Rightarrow> ret v)"

text \<open>\<open>'literal' + x\<close> raises \<open>TypeError\<close> unless \<open>x\<close> is a string.\<close>

definition str_add :: "string \<Rightarrow> yaml \<Rightarrow> string io" where
  "str_add s v = (case v of YStr t \<Rightarrow> ret (s @ t) | _ \<Rightarrow> raise TypeError)"

section \<open>\<open>check_repo\<close>\<close>

text \<open>
  The body shared by \<open>get_local_commit\<close> and \<open>get_remote_commit\<close> after
  \<open>check_output\<close>: decode, \<open>splitlines\<close>, the assertion that there is one line,
  the split at the separator and the unpacking into a pair.
\<close>

definition commit_of_output :: "nat \<Rightarrow> string \<Rightarrow> nat list option io" where
  "commit_of_output sep bytes =
     (case decode bytes of
        None \<Rightarrow> raise UnicodeDecodeError
      | Some text \<Rightarrow>
          (let out = splitlines text in
           if length out \<noteq> 1 then raise AssertionError
           else (case split_at sep (hd out) of
                   [commit, outref] \<Rightarrow> ret (Some commit)
                 | _ \<Rightarrow> raise ValueError)))"

text \<open>What \<open>except subprocess.CalledProcessError\<close> catches.\<close>

fun is_CalledProcessError :: "error \<Rightarrow> bool" where
  "is_CalledProcessError (CalledProcessError rc) = True"
| "is_CalledProcessError _ = False"

text \<open>
  The two local functions of \<open>check_repo\<close>. \<open>CalledProcessError\<close> is caught and
  becomes \<open>None\<close>; every other exception passes.
\<close>

definition get_local_commit :: "world \<Rightarrow> source \<Rightarrow> string \<Rightarrow> nat list option io" where
  "get_local_commit w src ref =
     (case check_output w [YStr ''git'', YStr ''show-ref'', YStr ''--verify'', YStr ref]
             (Some (source_dir src)) of
        (t, Inl e) \<Rightarrow> if is_CalledProcessError e then (t, Inr None) else (t, Inl e)
      | (t, Inr bytes) \<Rightarrow> bnd (t, Inr ()) (\<lambda>_. commit_of_output 32 bytes))"

definition get_remote_commit :: "world \<Rightarrow> source \<Rightarrow> string \<Rightarrow> nat list option io" where
  "get_remote_commit w src ref =
     (case bnd (subscript (this_yml src) ''git'')
             (\<lambda>url. check_output w
                [YStr ''git'', YStr ''ls-remote'', YStr ''--exit-code'', url, YStr ref] None) of
        (t, Inl e) \<Rightarrow> if is_CalledProcessError e then (t, Inr None) else (t, Inl e)
      | (t, Inr bytes) \<Rightarrow> bnd (t, Inr ()) (\<lambda>_. commit_of_output 9 bytes))"

definition check_repo :: "world \<Rightarrow> source \<Rightarrow> int \<Rightarrow> RepoStatus io" where
  "check_repo w src check_remotes =
     (if this_yml src ''git'' \<noteq> None then
        bnd (os_path_isdir w (source_dir src)) (\<lambda>present.
        if \<not> present then ret MISSING
        else
          bnd (if this_yml src ''tag'' \<noteq> None
               then bnd (subscript (this_yml src) ''tag'') (\<lambda>tag.
                    bnd (str_add ''refs/tags/'' tag) (\<lambda>ref.
                    bnd (str_add ''refs/tags/'' tag) (\<lambda>tracking_ref.
                    ret (ref, tracking_ref))))
               else bnd (subscript (this_yml src) ''branch'') (\<lambda>branch.
                    bnd (str_add ''refs/heads/'' branch) (\<lambda>ref.
                    bnd (str_add ''refs/remotes/origin/'' branch) (\<lambda>tracking_ref.
                    ret (ref, tracking_ref)))))
            (\<lambda>(ref, tracking_ref).
          bnd (get_local_commit w src tracking_ref) (\<lambda>local_commit.
          if local_commit = None then ret MISSING
          else
            (let do_check_remote =
                   (if 2 \<le> check_remotes then True
                    else if 1 \<le> check_remotes \<and> this_yml src ''tag'' = None then True
                    else False)
             in if do_check_remote then
                  bnd (log_info (''Checking for remote updates of '' @ name src)) (\<lambda>_.
                  bnd (get_remote_commit w src ref) (\<lambda>remote_commit.
                  if local_commit \<noteq> remote_commit then ret OUTDATED else ret GOOD))
                else ret GOOD))))
      else if this_yml src ''hg'' \<noteq> None then
        bnd (os_path_isdir w (source_dir src)) (\<lambda>present.
        if \<not> present then ret MISSING
        else
          bnd (if this_yml src ''tag'' \<noteq> None
               then subscript (this_yml src) ''tag''
               else subscript (this_yml src) ''branch'') (\<lambda>revision.
          bnd (subprocess_call w
                 [YStr ''hg'', YStr ''manifest'', YStr ''--pager'', YStr ''never'', YStr ''-r'', revision]
                 (Some (source_dir src))) (\<lambda>rc.
          if rc \<noteq> 0 then ret MISSING else ret GOOD)))
      else if this_yml src ''svn'' \<noteq> None then
        bnd (os_path_isdir w (source_dir src)) (\<lambda>present.
        if \<not> present then ret MISSING else ret GOOD)
      else if this_yml src ''url'' = None then raise AssertionError
      else
        bnd (os_access w (source_archive_file src)) (\<lambda>present.
        if \<not> present then ret MISSING else ret GOOD))"

section \<open>\<open>fetch_repo\<close>\<close>

text \<open>
  The names bound at the top level of the module: its imports (\<open>Enum\<close>, \<open>os\<close>,
  \<open>shutil\<close>, \<open>subprocess\<close>, \<open>urllib\<close>, \<open>_util\<close>), its class and its two
  functions. Python looks a global name up when the expression is evaluated; a
  name that is neither here nor a builtin raises \<open>NameError\<close>.
\<close>

definition module_globals :: "string list" where
  "module_globals =
     [''Enum'', ''os'', ''shutil'', ''subprocess'', ''urllib'', ''_util'',
      ''RepoStatus'', ''check_repo'', ''fetch_repo'']"

text \<open>\<open>raise GenericException(msg)\<close>, as the module evaluates it.\<close>

definition raise_GenericException :: "string \<Rightarrow> 'a io" where
  "raise_GenericException msg =
     (if ''GenericException'' \<in> set module_globals
      then raise (GenericException msg)
      else raise (NameError ''GenericException''))"

text \<open>
  Modelled from the spec: \<open>_util.try_mkdir\<close> lives in \<open>xbstrap/util.py\<close>, which
  is not part of the sources at hand. The specification has it ensure that the
  directory exists; here it is one event that the environment may refuse.
\<close>

definition try_mkdir :: "world \<Rightarrow> string \<Rightarrow> unit io" where
  "try_mkdir w p = ([TryMkdir p], if mkdir_fails w p then Inl OSError else Inr ())"

text \<open>
  \<open>urllib.request.urlopen(url)\<close>: an object that is not a string has no attribute
  \<open>timeout\<close>.
\<close>

definition urlopen :: "world \<Rightarrow> yaml \<Rightarrow> unit io" where
  "urlopen w url =
     (case url of
        YStr u \<Rightarrow> ([UrlOpen u], if urlopen_fails w u then Inl URLError else Inr ())
      | _ \<Rightarrow> raise AttributeError)"

text \<open>\<open>open(path, 'wb')\<close> and \<open>shutil.copyfileobj\<close> into it.\<close>

definition copy_to_file :: "world \<Rightarrow> string \<Rightarrow> unit io" where
  "copy_to_file w p = ([WriteFile p], if write_fails w p then Inl OSError else Inr ())"

text \<open>
  \<open>cfg._commit_yml.get('commits', dict()).get(src.name, dict())\<close> and
  \<open>commit_yml.get('fixed_commit', None)\<close>.
\<close>

definition commit_yml_of :: "config \<Rightarrow> source \<Rightarrow> (string \<rightharpoonup> yaml)" where
  "commit_yml_of cfg src =
     (case commits cfg of
        None \<Rightarrow> Map.empty
      | Some c \<Rightarrow> (case c (name src) of None \<Rightarrow> Map.empty | Some r \<Rightarrow> r))"

definition fixed_commit_of :: "config \<Rightarrow> source \<Rightarrow> yaml" where
  "fixed_commit_of cfg src =
     (case commit_yml_of cfg src ''fixed_commit'' of None \<Rightarrow> YNull | Some v \<Rightarrow> v)"

text \<open>\<open>source.get('disable_shallow_fetch', False)\<close>.\<close>

definition disable_shallow_fetch :: "source \<Rightarrow> yaml" where
  "disable_shallow_fetch src =
     (case this_yml src ''disable_shallow_fetch'' of None \<Rightarrow> YBool False | Some v \<Rightarrow> v)"

text \<open>
  Lines 100 to 123 of the module, the part of the git branch that computes
  \<open>shallow\<close> and builds \<open>args\<close> for \<open>git fetch\<close>, from the path \<open>git\<close> of the
  executable, \<open>fixed_commit\<close> and \<open>init\<close>.
\<close>

definition fetch_args :: "source \<Rightarrow> string \<Rightarrow> yaml \<Rightarrow> bool \<Rightarrow> yaml list io" where
  "fetch_args src git fixed_commit init =
     (let source = this_yml src;
          shallow = \<not> truthy (disable_shallow_fetch src);
          shallow = (if is_rolling_version src then False else shallow);
          args = [YStr git, YStr ''fetch'']
      in
      if source ''tag'' \<noteq> None then
        (let args = (if shallow then args @ [YStr ''--depth=1''] else args) in
         bnd (subscript source ''git'') (\<lambda>url.
         bnd (subscript source ''tag'') (\<lambda>tag.
         ret (args @ [url, YStr ''tag'', tag]))))
      else
        (let shallow =
               (if source ''commit'' \<noteq> None then False
                else if fixed_commit \<noteq> YNull then False
                else shallow);
             args = (if init \<and> shallow then args @ [YStr ''--depth=1''] else args)
         in
         bnd (subscript source ''git'') (\<lambda>url.
         bnd (subscript source ''branch'') (\<lambda>branch.
         bnd (str_add ''refs/heads/'' branch) (\<lambda>heads.
         bnd (subscript source ''branch'') (\<lambda>branch'.
         bnd (str_add (heads @ '':'' @ ''refs/remotes/origin/'') branch') (\<lambda>refspec.
         ret (args @ [url, YStr refspec]))))))))"

text \<open>
  Lines 94 to 98, the initialisation of a working copy that is not there yet.
\<close>

definition init_repo :: "world \<Rightarrow> source \<Rightarrow> string \<Rightarrow> unit io" where
  "init_repo w src git =
     bnd (try_mkdir w (source_dir src)) (\<lambda>_.
     bnd (check_call w [YStr git, YStr ''init''] (Some (source_dir src))) (\<lambda>_.
     bnd (subscript (this_yml src) ''git'') (\<lambda>url.
     check_call w [YStr git, YStr ''remote'', YStr ''add'', YStr ''origin'', url]
       (Some (source_dir src)))))"

definition fetch_repo :: "world \<Rightarrow> config \<Rightarrow> source \<Rightarrow> unit io" where
  "fetch_repo w cfg src =
     (let source = this_yml src in
      if source ''git'' \<noteq> None then
        bnd (shutil_which w ''git'') (\<lambda>found.
        case found of
          None \<Rightarrow> raise_GenericException ''git not found; please install it and retry''
        | Some git \<Rightarrow>
            (let fixed_commit = fixed_commit_of cfg src in
             bnd (os_path_isdir w (source_dir src)) (\<lambda>present.
             let init = \<not> present in
             bnd (if init then init_repo w src git else ret ()) (\<lambda>_.
             bnd (fetch_args src git fixed_commit init) (\<lambda>args.
             check_call w args (Some (source_dir src)))))))
      else if source ''hg'' \<noteq> None then
        bnd (shutil_which w ''hg'') (\<lambda>found.
        case found of
          None \<Rightarrow>
            raise_GenericException ''mercurial (hg) not found; please install it and retry''
        | Some hg \<Rightarrow>
            bnd (try_mkdir w (source_dir src)) (\<lambda>_.
            bnd (subscript source ''hg'') (\<lambda>url.
            check_call w [YStr hg, YStr ''clone'', url, YStr (source_dir src)] None)))
      else if source ''svn'' \<noteq> None then
        bnd (shutil_which w ''svn'') (\<lambda>found.
        case found of
          None \<Rightarrow>
            raise_GenericException ''subversion (svn) not found; please install it and retry''
        | Some svn \<Rightarrow>
            bnd (try_mkdir w (source_dir src)) (\<lambda>_.
            bnd (subscript source ''svn'') (\<lambda>url.
            check_call w [YStr svn, YStr ''co'', url, YStr (source_dir src)] None)))
      else if source ''url'' = None then raise AssertionError
      else
        bnd (try_mkdir w (source_dir src)) (\<lambda>_.
        bnd (subscript source ''url'') (\<lambda>url.
        bnd (urlopen w url) (\<lambda>_.
        copy_to_file w (source_archive_file src)))))"

section \<open>Events that leave the file system as it is\<close>


section \<open>Example sources and environments\<close>

text \<open>
  A working copy at \<open>/src/demo\<close> whose tracking refs resolve to commit
  \<open>0a1b2c\<close>, with a remote that cannot be queried (\<open>ls-remote\<close> exits with 2).
\<close>

definition demo_world :: world where
  "demo_world =
     \<lparr> isdir = (\<lambda>p. p = ''/src/demo''),
       access_F_OK = (\<lambda>p. False),
       which = (\<lambda>n. Some (''/usr/bin/'' @ n)),
       run = (\<lambda>argv cwd.
         if argv = [''git'', ''show-ref'', ''--verify'', ''refs/remotes/origin/main'']
         then Exited 0 (''0a1b2c refs/remotes/origin/main'' @ [CHR 0x0A])
         else if argv = [''git'', ''show-ref'', ''--verify'', ''refs/tags/v1.0'']
         then Exited 0 (''0a1b2c refs/tags/v1.0'' @ [CHR 0x0A])
         else if take 2 argv = [''git'', ''ls-remote'']
         then Exited 2 []
         else Exited 0 []),
       mkdir_fails = (\<lambda>p. False),
       urlopen_fails = (\<lambda>u. False),
       write_fails = (\<lambda>p. False) \<rparr>"

definition branch_source :: source where
  "branch_source =
     \<lparr> name = ''demo'',
       this_yml = [''git'' \<mapsto> YStr ''https://example/repo.git'', ''branch'' \<mapsto> YStr ''main''],
       source_dir = ''/src/demo'',
       source_archive_file = ''/src/demo.tar.gz'',
       is_rolling_version = False \<rparr>"

definition tag_source :: source where
  "tag_source =
     \<lparr> name = ''demo'',
       this_yml = [''git'' \<mapsto> YStr ''https://example/repo.git'', ''tag'' \<mapsto> YStr ''v1.0''],
       source_dir = ''/src/demo'',
       source_archive_file = ''/src/demo.tar.gz'',
       is_rolling_version = False \<rparr>"

text \<open>An archive that was downloaded to \<open>/src/zlib.tar.gz\<close>; no directory exists.\<close>

definition archive_world :: world where
  "archive_world =
     \<lparr> isdir = (\<lambda>p. False),
       access_F_OK = (\<lambda>p. p = ''/src/zlib.tar.gz''),
       which = (\<lambda>n. None),
       run = (\<lambda>argv cwd. Cannot_start),
       mkdir_fails = (\<lambda>p. False),
       urlopen_fails = (\<lambda>u. False),
       write_fails = (\<lambda>p. False) \<rparr>"

definition archive_source :: source where
  "archive_source =
     \<lparr> name = ''zlib'',
       this_yml = [''url'' \<mapsto> YStr ''https://example/archive.tar.gz''],
       source_dir = ''/src/zlib'',
       source_archive_file = ''/src/zlib.tar.gz'',
       is_rolling_version = False \<rparr>"

text \<open>A mercurial source in the same directory.\<close>

definition hg_source :: source where
  "hg_source =
     \<lparr> name = ''demo'',
       this_yml = [''hg'' \<mapsto> YStr ''https://example/hg/repo'', ''branch'' \<mapsto> YStr ''default''],
       source_dir = ''/src/demo'',
       source_archive_file = ''/src/demo.tar.gz'',
       is_rolling_version = False \<rparr>"

text \<open>The same working copy with a remote whose branch is at the same commit.\<close>

definition synced_world :: world where
  "synced_world =
     demo_world\<lparr>run := (\<lambda>argv cwd.
       if take 2 argv = [''git'', ''ls-remote'']
       then Exited 0 (''0a1b2c'' @ [CHR 0x09] @ ''refs/heads/main'' @ [CHR 0x0A])
       else run demo_world argv cwd)\<rparr>"

text \<open>A subversion source, and an environment whose search path has no tool.\<close>

definition svn_source :: source where
  "svn_source =
     \<lparr> name = ''demo'',
       this_yml = [''svn'' \<mapsto> YStr ''https://example/svn/trunk''],
       source_dir = ''/src/demo'',
       source_archive_file = ''/src/demo.tar.gz'',
       is_rolling_version = False \<rparr>"

definition no_tools_world :: world where
  "no_tools_world = demo_world\<lparr>which := (\<lambda>n. None)\<rparr>"

text \<open>
  Pin records: none, and one that fixes a commit for the source \<open>demo\<close>.
\<close>

definition no_pin :: config where
  "no_pin = \<lparr>commits = None\<rparr>"

definition pinned_config :: config where
  "pinned_config =
     \<lparr>commits = Some [''demo'' \<mapsto> [''fixed_commit'' \<mapsto> YStr ''0a1b2c'']]\<rparr>"

text \<open>
  The branch source with a directory that does not exist yet, and the same as a
  rolling version.
\<close>

definition fresh_branch_source :: source where
  "fresh_branch_source = branch_source\<lparr>source_dir := ''/src/new''\<rparr>"

definition rolling_source :: source where
  "rolling_source = fresh_branch_source\<lparr>is_rolling_version := True\<rparr>"

section \<open>Facts about sequencing\<close>

lemma bnd_Inl [simp]: "bnd (t, Inl e) f = (t, Inl e)"
  by (simp add: bnd_def)

lemma bnd_Inr [simp]: "bnd (t, Inr x) f = pre t (f x)"
  by (simp add: bnd_def)

lemma bnd_ret [simp]: "bnd (ret x) f = f x"
  by (simp add: ret_def pre_def)

lemma bnd_raise [simp]: "bnd (raise e) f = raise e"
  by (simp add: raise_def)

lemma pre_pair [simp]: "pre t (u, r) = (t @ u, r)"
  by (simp add: pre_def)

lemma pre_ret [simp]: "pre t (ret x) = (t, Inr x)"
  by (simp add: ret_def)

lemma pre_raise [simp]: "pre t (raise e) = (t, Inl e)"
  by (simp add: raise_def)

lemma pre_pre [simp]: "pre t (pre u m) = pre (t @ u) m"
  by (simp add: pre_def)

lemma fst_pre [simp]: "fst (pre t m) = t @ fst m"
  by (simp add: pre_def)

lemma snd_pre [simp]: "snd (pre t m) = snd m"
  by (simp add: pre_def)

lemma bnd_pre [simp]: "bnd (pre t m) f = pre t (bnd m f)"
  by (cases m) (simp add: pre_def bnd_def split: sum.splits)

lemma fst_ret [simp]: "fst (ret x) = []"
  by (simp add: ret_def)

lemma snd_ret [simp]: "snd (ret x) = Inr x"
  by (simp add: ret_def)

lemma fst_raise [simp]: "fst (raise e) = []"
  by (simp add: raise_def)

lemma snd_raise [simp]: "snd (raise e) = Inl e"
  by (simp add: raise_def)

lemma fst_bnd:
  "fst (bnd m f) = (case snd m of Inl e \<Rightarrow> fst m | Inr x \<Rightarrow> fst m @ fst (f x))"
  by (cases m) (simp split: sum.splits)

lemma snd_bnd:
  "snd (bnd m f) = (case snd m of Inl e \<Rightarrow> Inl e | Inr x \<Rightarrow> snd (f x))"
  by (cases m) (simp split: sum.splits)

lemma list_all_bnd:
  assumes "list_all P (fst m)"
    and "\<And>x. snd m = Inr x \<Longrightarrow> list_all P (fst (f x))"
  shows "list_all P (fst (bnd m f))"
  using assms by (cases m) (auto simp: fst_bnd split: sum.splits)

lemma events_subscript [simp]: "fst (subscript d k) = []"
  by (simp add: subscript_def split: option.splits)

lemma events_str_add [simp]: "fst (str_add s v) = []"
  by (simp add: str_add_def split: yaml.splits)

lemma events_commit_of_output [simp]: "fst (commit_of_output sep bytes) = []"
  by (simp add: commit_of_output_def Let_def split: option.splits list.splits)

section \<open>The two lookups of \<open>check_repo\<close>\<close>

text \<open>
  \<open>get_local_commit\<close> runs one subprocess; a status other than zero gives
  \<open>None\<close>, status zero gives what the output parses to.
\<close>

lemma get_local_commit_eq:
  "get_local_commit w src ref =
     ([Run [''git'', ''show-ref'', ''--verify'', ref] (Some (source_dir src))],
      case run w [''git'', ''show-ref'', ''--verify'', ref] (Some (source_dir src)) of
        Cannot_start \<Rightarrow> Inl OSError
      | Exited rc out \<Rightarrow> if rc = 0 then snd (commit_of_output 32 out) else Inr None)"
  by (simp add: get_local_commit_def check_output_def pre_def split: proc.splits)

lemma get_remote_commit_eq:
  "this_yml src ''git'' = Some (YStr url) \<Longrightarrow>
   get_remote_commit w src ref =
     ([Run [''git'', ''ls-remote'', ''--exit-code'', url, ref] None],
      case run w [''git'', ''ls-remote'', ''--exit-code'', url, ref] None of
        Cannot_start \<Rightarrow> Inl OSError
      | Exited rc out \<Rightarrow> if rc = 0 then snd (commit_of_output 9 out) else Inr None)"
  by (simp add: get_remote_commit_def check_output_def subscript_def pre_def split: proc.splits)





text \<open>
  The git path of \<open>check_repo\<close> once the directory is there and the ref is a
  string: the local lookup at the tracking ref, then the remote lookup if it is
  warranted.
\<close>

lemma check_repo_git_present:
  assumes git: "this_yml src ''git'' \<noteq> None"
    and dir: "isdir w (source_dir src)"
    and refs: "(this_yml src ''tag'' = Some (YStr r) \<and> ref = ''refs/tags/'' @ r
                 \<and> tracking = ''refs/tags/'' @ r)
               \<or> (this_yml src ''tag'' = None \<and> this_yml src ''branch'' = Some (YStr r)
                 \<and> ref = ''refs/heads/'' @ r \<and> tracking = ''refs/remotes/origin/'' @ r)"
  shows "check_repo w src lvl =
     bnd (os_path_isdir w (source_dir src)) (\<lambda>_.
     bnd (get_local_commit w src tracking) (\<lambda>local_commit.
       if local_commit = None then ret MISSING
       else if 2 \<le> lvl \<or> (1 \<le> lvl \<and> this_yml src ''tag'' = None) then
         bnd (log_info (''Checking for remote updates of '' @ name src)) (\<lambda>_.
         bnd (get_remote_commit w src ref) (\<lambda>remote_commit.
         if local_commit \<noteq> remote_commit then ret OUTDATED else ret GOOD))
       else ret GOOD))"
  using assms unfolding check_repo_def Let_def
  by (auto simp add: os_path_isdir_def subscript_def str_add_def cong del: if_weak_cong)

section \<open>What the example environment answers\<close>

lemma commit_demo:
  "commit_of_output 32 (''0a1b2c refs/remotes/origin/main'' @ [CHR 0x0A]) =
     ret (Some (map of_char ''0a1b2c''))"
  by (simp add: commit_of_output_def splitlines_def is_linebreak_def)

lemma run_demo_show_ref:
  "run demo_world [''git'', ''show-ref'', ''--verify'', ''refs/remotes/origin/main''] cwd =
     Exited 0 (''0a1b2c refs/remotes/origin/main'' @ [CHR 0x0A])"
  by (simp add: demo_world_def)

lemma run_demo_ls_remote:
  "run demo_world [''git'', ''ls-remote'', ''--exit-code'', u, r] cwd = Exited 2 []"
  by (simp add: demo_world_def)

lemma local_demo:
  "get_local_commit demo_world branch_source ''refs/remotes/origin/main'' =
     ([Run [''git'', ''show-ref'', ''--verify'', ''refs/remotes/origin/main'']
         (Some ''/src/demo'')],
      Inr (Some (map of_char ''0a1b2c'')))"
  using commit_demo
  by (simp only: get_local_commit_eq run_demo_show_ref) (simp add: branch_source_def)

lemma remote_demo:
  "get_remote_commit demo_world branch_source ''refs/heads/main'' =
     ([Run [''git'', ''ls-remote'', ''--exit-code'', ''https://example/repo.git'',
            ''refs/heads/main''] None],
      Inr None)"
  by (subst get_remote_commit_eq [of _ "''https://example/repo.git''"])
     (simp_all add: branch_source_def run_demo_ls_remote)

lemma check_repo_demo_level_1:
  "check_repo demo_world branch_source 1 =
     ([IsDir ''/src/demo'',
       Run [''git'', ''show-ref'', ''--verify'', ''refs/remotes/origin/main'']
         (Some ''/src/demo''),
       LogInfo ''Checking for remote updates of demo'',
       Run [''git'', ''ls-remote'', ''--exit-code'', ''https://example/repo.git'',
            ''refs/heads/main''] None],
      Inr OUTDATED)"
proof -
  have "check_repo demo_world branch_source 1 =
     bnd (os_path_isdir demo_world (source_dir branch_source)) (\<lambda>_.
     bnd (get_local_commit demo_world branch_source ''refs/remotes/origin/main'')
       (\<lambda>local_commit.
       if local_commit = None then ret MISSING
       else if 2 \<le> (1::int) \<or> (1 \<le> (1::int) \<and> this_yml branch_source ''tag'' = None) then
         bnd (log_info (''Checking for remote updates of '' @ name branch_source)) (\<lambda>_.
         bnd (get_remote_commit demo_world branch_source ''refs/heads/main'')
           (\<lambda>remote_commit.
         if local_commit \<noteq> remote_commit then ret OUTDATED else ret GOOD))
       else ret GOOD))"
    by (rule check_repo_git_present [where r = "''main''"])
       (simp_all add: branch_source_def demo_world_def)
  also have "\<dots> =
     ([IsDir ''/src/demo'',
       Run [''git'', ''show-ref'', ''--verify'', ''refs/remotes/origin/main'']
         (Some ''/src/demo''),
       LogInfo ''Checking for remote updates of demo'',
       Run [''git'', ''ls-remote'', ''--exit-code'', ''https://example/repo.git'',
            ''refs/heads/main''] None],
      Inr OUTDATED)"
    unfolding local_demo remote_demo
    by (simp add: os_path_isdir_def log_info_def branch_source_def)
  finally show ?thesis .
qed

section \<open>Claims about \<open>check_repo\<close>\<close>

text \<open>
  Claim C6. For a git descriptor with a tag, \<open>check_repo\<close> with
  \<open>check_remotes = 1\<close> yields the same events and the same result as with
  \<open>check_remotes = 0\<close>, and none of its events is an \<open>ls-remote\<close> query.
\<close>

theorem check_repo_tag_level_1_as_0:
  assumes "this_yml src ''git'' \<noteq> None" and "this_yml src ''tag'' \<noteq> None"
  shows "check_repo w src 1 = check_repo w src 0
         \<and> list_all (\<lambda>e. \<forall>rest cwd. e \<noteq> Run (''git'' # ''ls-remote'' # rest) cwd)
             (fst (check_repo w src 0))"
proof
  show "check_repo w src 1 = check_repo w src 0"
    using assms by (auto simp add: check_repo_def)
  show "list_all (\<lambda>e. \<forall>rest cwd. e \<noteq> Run (''git'' # ''ls-remote'' # rest) cwd)
          (fst (check_repo w src 0))"
    using assms unfolding check_repo_def Let_def
    by (auto intro!: list_all_bnd simp: os_path_isdir_def get_local_commit_eq)
qed

theorem check_repo_tag_level_1_as_0_witness:
  "check_repo demo_world tag_source 1 = check_repo demo_world tag_source 0
   \<and> list_all (\<lambda>e. \<forall>rest cwd. e \<noteq> Run (''git'' # ''ls-remote'' # rest) cwd)
       (fst (check_repo demo_world tag_source 0))"
  using check_repo_tag_level_1_as_0 [of tag_source demo_world]
  by (simp add: tag_source_def)

text \<open>
  Claim C3, as amended. When \<open>src.source_dir\<close> is not a directory, \<open>check_repo\<close>
  returns \<open>MISSING\<close> for a git, hg or svn source at every level of
  \<open>check_remotes\<close>, and its only event is the test of the directory: no
  subprocess, no network. For an archive source the directory is not looked at:
  the only event is the test of \<open>src.source_archive_file\<close>, and the result is
  \<open>GOOD\<close> when that file is there and \<open>MISSING\<close> when it is not.
\<close>

theorem check_repo_absent_dir:
  assumes "\<not> isdir w (source_dir src)"
  shows "(this_yml src ''git'' \<noteq> None \<or> this_yml src ''hg'' \<noteq> None
            \<or> this_yml src ''svn'' \<noteq> None \<longrightarrow>
          check_repo w src lvl = ([IsDir (source_dir src)], Inr MISSING))
       \<and> (this_yml src ''git'' = None \<and> this_yml src ''hg'' = None
            \<and> this_yml src ''svn'' = None \<and> this_yml src ''url'' \<noteq> None \<longrightarrow>
          check_repo w src lvl =
            ([Access (source_archive_file src)],
             Inr (if access_F_OK w (source_archive_file src) then GOOD else MISSING)))"
  using assms by (auto simp add: check_repo_def os_path_isdir_def os_access_def)

theorem check_repo_absent_dir_witness:
  "check_repo demo_world (branch_source\<lparr>source_dir := ''/src/new''\<rparr>) 2 =
     ([IsDir ''/src/new''], Inr MISSING)
   \<and> check_repo archive_world (archive_source\<lparr>source_archive_file := ''/src/none''\<rparr>) 2 =
     ([Access ''/src/none''], Inr MISSING)"
  using check_repo_absent_dir [of demo_world "branch_source\<lparr>source_dir := ''/src/new''\<rparr>" 2]
    check_repo_absent_dir [of archive_world "archive_source\<lparr>source_archive_file := ''/src/none''\<rparr>" 2]
  by (simp add: branch_source_def demo_world_def archive_world_def archive_source_def)

text \<open>
  The claim as stated fails for an archive source: without the directory, but
  with the archive file, the result is \<open>GOOD\<close>.
\<close>

theorem check_repo_absent_dir_archive_counterexample:
  "\<not> isdir archive_world (source_dir archive_source)
   \<and> check_repo archive_world archive_source 0 = ([Access ''/src/zlib.tar.gz''], Inr GOOD)"
  by (simp add: check_repo_def archive_world_def archive_source_def os_access_def)









text \<open>Sources that are not git.\<close>

lemma hg_manifest_result:
  "snd (subprocess_call w
     [YStr ''hg'', YStr ''manifest'', YStr ''--pager'', YStr ''never'', YStr ''-r'', YStr r] cwd) =
   (case run w [''hg'', ''manifest'', ''--pager'', ''never'', ''-r'', r] cwd of
      Cannot_start \<Rightarrow> Inl OSError | Exited rc out \<Rightarrow> Inr rc)"
  by (simp add: subprocess_call_def split: proc.splits)

lemma check_repo_non_git_not_outdated:
  assumes "this_yml src ''git'' = None"
  shows "snd (check_repo w src lvl) \<noteq> Inr OUTDATED"
  using assms unfolding check_repo_def
  by (simp add: os_path_isdir_def os_access_def snd_bnd split: sum.splits)

text \<open>
  Claim C9. For a source without the key \<open>git\<close>, \<open>check_repo\<close> never returns
  \<open>OUTDATED\<close>. It returns \<open>GOOD\<close> or \<open>MISSING\<close> whenever the descriptor has one of
  the other origins and, for hg with the directory there, the tag or branch is a
  string and \<open>hg\<close> can be started.
\<close>

theorem check_repo_non_git_good_or_missing:
  assumes "this_yml src ''git'' = None"
  shows "snd (check_repo w src lvl) \<noteq> Inr OUTDATED
       \<and> ((this_yml src ''hg'' \<noteq> None
             \<and> (isdir w (source_dir src) \<longrightarrow>
                 (\<exists>r. (if this_yml src ''tag'' \<noteq> None then this_yml src ''tag''
                       else this_yml src ''branch'') = Some (YStr r)
                    \<and> run w [''hg'', ''manifest'', ''--pager'', ''never'', ''-r'', r]
                         (Some (source_dir src)) \<noteq> Cannot_start)))
           \<or> (this_yml src ''hg'' = None \<and> this_yml src ''svn'' \<noteq> None)
           \<or> (this_yml src ''hg'' = None \<and> this_yml src ''svn'' = None
               \<and> this_yml src ''url'' \<noteq> None)
           \<longrightarrow> snd (check_repo w src lvl) = Inr GOOD \<or> snd (check_repo w src lvl) = Inr MISSING)"
proof (intro conjI impI)
  show "snd (check_repo w src lvl) \<noteq> Inr OUTDATED"
    by (rule check_repo_non_git_not_outdated [OF assms])
next
  assume "(this_yml src ''hg'' \<noteq> None
             \<and> (isdir w (source_dir src) \<longrightarrow>
                 (\<exists>r. (if this_yml src ''tag'' \<noteq> None then this_yml src ''tag''
                       else this_yml src ''branch'') = Some (YStr r)
                    \<and> run w [''hg'', ''manifest'', ''--pager'', ''never'', ''-r'', r]
                         (Some (source_dir src)) \<noteq> Cannot_start)))
           \<or> (this_yml src ''hg'' = None \<and> this_yml src ''svn'' \<noteq> None)
           \<or> (this_yml src ''hg'' = None \<and> this_yml src ''svn'' = None
               \<and> this_yml src ''url'' \<noteq> None)"
  then have wf: "(this_yml src ''hg'' \<noteq> None
             \<and> (isdir w (source_dir src) \<longrightarrow>
                 (\<exists>r. (if this_yml src ''tag'' \<noteq> None then this_yml src ''tag''
                       else this_yml src ''branch'') = Some (YStr r)
                    \<and> run w [''hg'', ''manifest'', ''--pager'', ''never'', ''-r'', r]
                         (Some (source_dir src)) \<noteq> Cannot_start)))
           \<or> (this_yml src ''hg'' = None \<and> this_yml src ''svn'' \<noteq> None)
           \<or> (this_yml src ''hg'' = None \<and> this_yml src ''svn'' = None
               \<and> this_yml src ''url'' \<noteq> None)" .
  show "snd (check_repo w src lvl) = Inr GOOD \<or> snd (check_repo w src lvl) = Inr MISSING"
  proof (cases "this_yml src ''hg'' = None")
    case True
    with assms wf show ?thesis
      by (auto simp add: check_repo_def os_path_isdir_def os_access_def)
  next
    case hg: False
    show ?thesis
    proof (cases "isdir w (source_dir src)")
      case False
      with assms hg show ?thesis
        by (simp add: check_repo_def os_path_isdir_def)
    next
      case True
      with wf hg obtain r where
        rev: "(if this_yml src ''tag'' \<noteq> None then this_yml src ''tag''
               else this_yml src ''branch'') = Some (YStr r)"
        and started: "run w [''hg'', ''manifest'', ''--pager'', ''never'', ''-r'', r]
                        (Some (source_dir src)) \<noteq> Cannot_start"
        by auto
      from started obtain rc out where
        "run w [''hg'', ''manifest'', ''--pager'', ''never'', ''-r'', r] (Some (source_dir src))
           = Exited rc out"
        by (cases "run w [''hg'', ''manifest'', ''--pager'', ''never'', ''-r'', r]
                     (Some (source_dir src))") auto
      with assms hg True rev show ?thesis
        by (auto simp add: check_repo_def os_path_isdir_def subscript_def snd_bnd
              hg_manifest_result split: if_splits)
    qed
  qed
qed

theorem check_repo_non_git_good_or_missing_witness:
  "snd (check_repo demo_world hg_source 2) \<noteq> Inr OUTDATED
   \<and> (snd (check_repo demo_world hg_source 2) = Inr GOOD
       \<or> snd (check_repo demo_world hg_source 2) = Inr MISSING)"
  using check_repo_non_git_good_or_missing [of hg_source demo_world 2]
  by (simp add: hg_source_def demo_world_def)

text \<open>
  Claim C1, as amended. Take a git source whose directory is there and whose
  local lookup at the tracking ref yields a commit \<open>c\<close>. When the remote check
  is warranted (\<open>check_remotes\<close> at least 2, or at least 1 without a tag) and
  \<open>git ls-remote\<close> exits with a status other than zero, \<open>get_remote_commit\<close>
  yields \<open>None\<close>, which differs from \<open>c\<close>, and \<open>check_repo\<close> returns
  \<open>OUTDATED\<close>. The result is \<open>OUTDATED\<close> exactly when the remote check is
  warranted and the remote lookup yields \<open>None\<close> or a commit other than \<open>c\<close>.
\<close>

theorem check_repo_remote_failure_outdated:
  assumes git: "this_yml src ''git'' = Some (YStr url)"
    and dir: "isdir w (source_dir src)"
    and refs: "(this_yml src ''tag'' = Some (YStr r) \<and> ref = ''refs/tags/'' @ r
                 \<and> tracking = ''refs/tags/'' @ r)
               \<or> (this_yml src ''tag'' = None \<and> this_yml src ''branch'' = Some (YStr r)
                 \<and> ref = ''refs/heads/'' @ r \<and> tracking = ''refs/remotes/origin/'' @ r)"
    and local: "snd (get_local_commit w src tracking) = Inr (Some c)"
  shows "((2 \<le> lvl \<or> (1 \<le> lvl \<and> this_yml src ''tag'' = None))
          \<and> (\<exists>rc out. run w [''git'', ''ls-remote'', ''--exit-code'', url, ref] None
                         = Exited rc out \<and> rc \<noteq> 0)
          \<longrightarrow> snd (check_repo w src lvl) = Inr OUTDATED)
       \<and> (snd (check_repo w src lvl) = Inr OUTDATED \<longleftrightarrow>
            (2 \<le> lvl \<or> (1 \<le> lvl \<and> this_yml src ''tag'' = None))
            \<and> (snd (get_remote_commit w src ref) = Inr None
               \<or> (\<exists>c'. snd (get_remote_commit w src ref) = Inr (Some c') \<and> c' \<noteq> c)))"
proof -
  have g: "this_yml src ''git'' \<noteq> None" using git by simp
  note eq = check_repo_git_present [OF g dir refs, of lvl]
  have res: "snd (check_repo w src lvl) =
       (if 2 \<le> lvl \<or> (1 \<le> lvl \<and> this_yml src ''tag'' = None)
        then (case snd (get_remote_commit w src ref) of
                Inl e \<Rightarrow> Inl e
              | Inr remote_commit \<Rightarrow>
                  if Some c \<noteq> remote_commit then Inr OUTDATED else Inr GOOD)
        else Inr GOOD)"
    unfolding eq using local
    by (simp add: os_path_isdir_def log_info_def snd_bnd split: sum.splits)
  have fail: "snd (get_remote_commit w src ref) = Inr None"
    if "run w [''git'', ''ls-remote'', ''--exit-code'', url, ref] None = Exited rc out"
      and "rc \<noteq> 0" for rc out
    using that by (simp add: get_remote_commit_eq [OF git])
  have differs: "Some c \<noteq> x \<longleftrightarrow> x = None \<or> (\<exists>c'. x = Some c' \<and> c' \<noteq> c)"
    for x :: "nat list option"
    by (cases x) auto
  show ?thesis
    unfolding res using fail
    by (auto simp: differs split: sum.splits)
qed

theorem check_repo_remote_failure_outdated_witness:
  "snd (check_repo demo_world branch_source 1) = Inr OUTDATED
   \<and> snd (get_remote_commit demo_world branch_source ''refs/heads/main'') = Inr None"
  using check_repo_remote_failure_outdated
    [of branch_source "''https://example/repo.git''" demo_world "''main''"
        "''refs/heads/main''" "''refs/remotes/origin/main''" "map of_char ''0a1b2c''" 1]
  by (simp add: local_demo remote_demo run_demo_ls_remote)
     (simp add: branch_source_def demo_world_def)

text \<open>
  The claim as stated has \<open>GOOD\<close> for a remote that cannot be queried. In the
  example the local commit resolves, \<open>ls-remote\<close> exits with 2, and the result at
  level 1 is \<open>OUTDATED\<close>.
\<close>

theorem check_repo_remote_failure_counterexample:
  "run demo_world [''git'', ''ls-remote'', ''--exit-code'', ''https://example/repo.git'',
                   ''refs/heads/main''] None = Exited 2 []
   \<and> snd (get_local_commit demo_world branch_source ''refs/remotes/origin/main'')
       = Inr (Some (map of_char ''0a1b2c''))
   \<and> snd (check_repo demo_world branch_source 1) \<noteq> Inr GOOD
   \<and> snd (check_repo demo_world branch_source 1) = Inr OUTDATED"
  by (simp add: check_repo_demo_level_1 local_demo run_demo_ls_remote)

section \<open>Parsing the output of the lookups\<close>

text \<open>A text without line ends is one line, with or without a final LF.\<close>

lemma splitlines_from_one_line:
  "\<forall>c\<in>set s. \<not> is_linebreak c \<Longrightarrow>
   splitlines_from acc s = (if acc = [] \<and> s = [] then [] else [rev acc @ s])"
proof (induction s arbitrary: acc)
  case Nil
  then show ?case by simp
next
  case (Cons c s)
  then have "c \<noteq> 13" by (auto simp: is_linebreak_def)
  with Cons show ?case by simp
qed

lemma splitlines_from_ended_line:
  "\<forall>c\<in>set s. \<not> is_linebreak c \<Longrightarrow> splitlines_from acc (s @ [10]) = [rev acc @ s]"
proof (induction s arbitrary: acc)
  case Nil
  then show ?case by (simp add: is_linebreak_def)
next
  case (Cons c s)
  then have "c \<noteq> 13" by (auto simp: is_linebreak_def)
  with Cons show ?case by simp
qed

lemma splitlines_one_line:
  assumes "\<forall>c\<in>set s. \<not> is_linebreak c" and "s \<noteq> []" and "nl = [] \<or> nl = [10]"
  shows "splitlines (s @ nl) = [s]"
  using assms
  by (auto simp: splitlines_def splitlines_from_one_line splitlines_from_ended_line)

lemma split_at_no_sep: "sep \<notin> set s \<Longrightarrow> split_at sep s = [s]"
  by (induction s) auto

lemma split_at_one_sep:
  "sep \<notin> set a \<Longrightarrow> sep \<notin> set b \<Longrightarrow> split_at sep (a @ sep # b) = [a, b]"
  by (induction a) (auto simp: split_at_no_sep)

lemma commit_of_output_protocol:
  assumes dec: "decode bytes = Some (commit @ sep # outref @ nl)"
    and nl: "nl = [] \<or> nl = [10]"
    and clean: "\<forall>c\<in>set (commit @ outref). \<not> is_linebreak c \<and> c \<noteq> sep"
    and sep: "\<not> is_linebreak sep"
  shows "commit_of_output sep bytes = ret (Some commit)"
proof -
  have "\<forall>c\<in>set (commit @ sep # outref). \<not> is_linebreak c"
    using clean sep by auto
  then have "splitlines ((commit @ sep # outref) @ nl) = [commit @ sep # outref]"
    using nl by (intro splitlines_one_line) auto
  moreover have "split_at sep (commit @ sep # outref) = [commit, outref]"
    using clean by (intro split_at_one_sep) auto
  ultimately show ?thesis
    using dec by (simp add: commit_of_output_def)
qed

text \<open>
  Claim C10. Let the subprocess of \<open>get_local_commit\<close> (\<open>git show-ref\<close>) or of
  \<open>get_remote_commit\<close> (\<open>git ls-remote\<close>) exit with status zero, and let its
  output decode to one line, with or without a final LF, that is a commit, the
  separator (a space for \<open>show-ref\<close>, a tab for \<open>ls-remote\<close>) and a ref, where
  neither the commit nor the ref holds the separator or a line end. Then the
  assertion on the number of lines holds, the split gives two pieces, and the
  function returns the commit.
\<close>

theorem commit_extraction_total:
  assumes nl: "nl = [] \<or> nl = [10]"
  shows "(run w [''git'', ''show-ref'', ''--verify'', ref] (Some (source_dir src)) = Exited 0 bytes
          \<and> decode bytes = Some (commit @ 32 # outref @ nl)
          \<and> (\<forall>c\<in>set (commit @ outref). \<not> is_linebreak c \<and> c \<noteq> 32)
          \<longrightarrow> get_local_commit w src ref =
                ([Run [''git'', ''show-ref'', ''--verify'', ref] (Some (source_dir src))],
                 Inr (Some commit)))
       \<and> (this_yml src ''git'' = Some (YStr url)
          \<and> run w [''git'', ''ls-remote'', ''--exit-code'', url, ref] None = Exited 0 bytes
          \<and> decode bytes = Some (commit @ 9 # outref @ nl)
          \<and> (\<forall>c\<in>set (commit @ outref). \<not> is_linebreak c \<and> c \<noteq> 9)
          \<longrightarrow> get_remote_commit w src ref =
                ([Run [''git'', ''ls-remote'', ''--exit-code'', url, ref] None],
                 Inr (Some commit)))"
proof (intro conjI impI)
  assume a: "run w [''git'', ''show-ref'', ''--verify'', ref] (Some (source_dir src)) = Exited 0 bytes
          \<and> decode bytes = Some (commit @ 32 # outref @ nl)
          \<and> (\<forall>c\<in>set (commit @ outref). \<not> is_linebreak c \<and> c \<noteq> 32)"
  then have "commit_of_output 32 bytes = ret (Some commit)"
    using nl by (intro commit_of_output_protocol [where outref = outref and nl = nl])
      (auto simp: is_linebreak_def)
  with a show "get_local_commit w src ref =
      ([Run [''git'', ''show-ref'', ''--verify'', ref] (Some (source_dir src))],
       Inr (Some commit))"
    by (simp add: get_local_commit_eq)
next
  assume a: "this_yml src ''git'' = Some (YStr url)
          \<and> run w [''git'', ''ls-remote'', ''--exit-code'', url, ref] None = Exited 0 bytes
          \<and> decode bytes = Some (commit @ 9 # outref @ nl)
          \<and> (\<forall>c\<in>set (commit @ outref). \<not> is_linebreak c \<and> c \<noteq> 9)"
  then have "commit_of_output 9 bytes = ret (Some commit)"
    using nl by (intro commit_of_output_protocol [where outref = outref and nl = nl])
      (auto simp: is_linebreak_def)
  with a show "get_remote_commit w src ref =
      ([Run [''git'', ''ls-remote'', ''--exit-code'', url, ref] None], Inr (Some commit))"
    by (simp add: get_remote_commit_eq)
qed

theorem commit_extraction_total_witness:
  "get_local_commit demo_world branch_source ''refs/remotes/origin/main'' =
     ([Run [''git'', ''show-ref'', ''--verify'', ''refs/remotes/origin/main'']
         (Some ''/src/demo'')],
      Inr (Some (map of_char ''0a1b2c'')))
   \<and> get_remote_commit synced_world branch_source ''refs/heads/main'' =
     ([Run [''git'', ''ls-remote'', ''--exit-code'', ''https://example/repo.git'',
            ''refs/heads/main''] None],
      Inr (Some (map of_char ''0a1b2c'')))"
proof -
  have nl: "[10::nat] = [] \<or> [10::nat] = [10]" by simp
  have l: "run demo_world [''git'', ''show-ref'', ''--verify'', ''refs/remotes/origin/main'']
             (Some (source_dir branch_source))
           = Exited 0 (''0a1b2c refs/remotes/origin/main'' @ [CHR 0x0A])"
    by (rule run_demo_show_ref)
  have r: "run synced_world [''git'', ''ls-remote'', ''--exit-code'',
             ''https://example/repo.git'', ''refs/heads/main''] None
           = Exited 0 (''0a1b2c'' @ [CHR 0x09] @ ''refs/heads/main'' @ [CHR 0x0A])"
    by (simp add: synced_world_def)
  have dl: "decode (''0a1b2c refs/remotes/origin/main'' @ [CHR 0x0A]) =
      Some (map of_char ''0a1b2c'' @ 32 # map of_char ''refs/remotes/origin/main'' @ [10])"
    by simp
  have dr: "decode (''0a1b2c'' @ [CHR 0x09] @ ''refs/heads/main'' @ [CHR 0x0A]) =
      Some (map of_char ''0a1b2c'' @ 9 # map of_char ''refs/heads/main'' @ [10])"
    by simp
  have cl: "\<forall>c\<in>set (map of_char ''0a1b2c'' @ map of_char ''refs/remotes/origin/main'').
              \<not> is_linebreak c \<and> c \<noteq> (32::nat)"
    by (simp add: is_linebreak_def)
  have cr: "\<forall>c\<in>set (map of_char ''0a1b2c'' @ map of_char ''refs/heads/main'').
              \<not> is_linebreak c \<and> c \<noteq> (9::nat)"
    by (simp add: is_linebreak_def)
  have g: "this_yml branch_source ''git'' = Some (YStr ''https://example/repo.git'')"
    by (simp add: branch_source_def)
  have sd: "source_dir branch_source = ''/src/demo''"
    by (simp add: branch_source_def)
  from commit_extraction_total [OF nl, of demo_world "''refs/remotes/origin/main''" branch_source
      "''0a1b2c refs/remotes/origin/main'' @ [CHR 0x0A]" "map of_char ''0a1b2c''"
      "map of_char ''refs/remotes/origin/main''"] l dl cl
  have 1: "get_local_commit demo_world branch_source ''refs/remotes/origin/main'' =
     ([Run [''git'', ''show-ref'', ''--verify'', ''refs/remotes/origin/main'']
         (Some ''/src/demo'')],
      Inr (Some (map of_char ''0a1b2c'')))"
    unfolding sd by blast
  from commit_extraction_total [OF nl, of synced_world "''refs/heads/main''" branch_source
      "''0a1b2c'' @ [CHR 0x09] @ ''refs/heads/main'' @ [CHR 0x0A]" "map of_char ''0a1b2c''"
      "map of_char ''refs/heads/main''" "''https://example/repo.git''"] r dr cr g
  have 2: "get_remote_commit synced_world branch_source ''refs/heads/main'' =
     ([Run [''git'', ''ls-remote'', ''--exit-code'', ''https://example/repo.git'',
            ''refs/heads/main''] None],
      Inr (Some (map of_char ''0a1b2c'')))"
    by blast
  from 1 2 show ?thesis by (rule conjI)
qed

section \<open>Claims about \<open>fetch_repo\<close>\<close>

text \<open>
  When \<open>shutil.which\<close> finds no executable, each of the three branches evaluates
  \<open>raise GenericException(...)\<close>. The module binds no such name.
\<close>

lemma fetch_repo_git_missing:
  "this_yml src ''git'' \<noteq> None \<Longrightarrow> which w ''git'' = None \<Longrightarrow>
   fetch_repo w cfg src = ([Which ''git''], Inl (NameError ''GenericException''))"
  unfolding fetch_repo_def Let_def
  by (simp add: shutil_which_def raise_GenericException_def module_globals_def)

lemma fetch_repo_hg_missing:
  "this_yml src ''git'' = None \<Longrightarrow> this_yml src ''hg'' \<noteq> None \<Longrightarrow> which w ''hg'' = None \<Longrightarrow>
   fetch_repo w cfg src = ([Which ''hg''], Inl (NameError ''GenericException''))"
  unfolding fetch_repo_def Let_def
  by (simp add: shutil_which_def raise_GenericException_def module_globals_def)

lemma fetch_repo_svn_missing:
  "this_yml src ''git'' = None \<Longrightarrow> this_yml src ''hg'' = None \<Longrightarrow>
   this_yml src ''svn'' \<noteq> None \<Longrightarrow> which w ''svn'' = None \<Longrightarrow>
   fetch_repo w cfg src = ([Which ''svn''], Inl (NameError ''GenericException''))"
  unfolding fetch_repo_def Let_def
  by (simp add: shutil_which_def raise_GenericException_def module_globals_def)

text \<open>
  Claim C4 has \<open>fetch_repo\<close> fail with a user-facing error that tells the user to
  install the missing tool. With no tool on the search path, the git, hg and svn
  sources of the examples fail with \<open>NameError\<close> for the name
  \<open>GenericException\<close> instead; the message with the hint is never built.
\<close>

theorem fetch_repo_tool_missing_NameError:
  "fetch_repo no_tools_world \<lparr>commits = None\<rparr> branch_source =
     ([Which ''git''], Inl (NameError ''GenericException''))
   \<and> fetch_repo no_tools_world \<lparr>commits = None\<rparr> hg_source =
     ([Which ''hg''], Inl (NameError ''GenericException''))
   \<and> fetch_repo no_tools_world \<lparr>commits = None\<rparr> svn_source =
     ([Which ''svn''], Inl (NameError ''GenericException''))"
  by (simp add: fetch_repo_git_missing fetch_repo_hg_missing fetch_repo_svn_missing
      no_tools_world_def branch_source_def hg_source_def svn_source_def)


text \<open>Where a \<open>git fetch\<close> among the events of \<open>fetch_repo\<close> comes from.\<close>

lemma events_check_call:
  "e \<in> set (fst (check_call w args cwd)) \<Longrightarrow>
     \<exists>argv. argv_of args = Some argv \<and> e = Run argv cwd"
  by (auto simp: check_call_def subprocess_call_def raise_def fst_bnd
        split: option.splits proc.splits sum.splits if_splits)

lemma events_init_repo:
  "e \<in> set (fst (init_repo w src git)) \<Longrightarrow>
     e = TryMkdir (source_dir src) \<or> e = Run [git, ''init''] (Some (source_dir src))
     \<or> (\<exists>rest. e = Run (git # ''remote'' # rest) (Some (source_dir src)))"
  unfolding init_repo_def
  by (auto simp: fst_bnd try_mkdir_def subscript_def
        dest!: events_check_call split: sum.splits option.splits if_splits)

lemma events_fetch_args [simp]: "fst (fetch_args src git fixed_commit init) = []"
  unfolding fetch_args_def Let_def
  by (simp add: fst_bnd split: sum.splits)

lemma fetch_repo_git_eq:
  assumes "this_yml src ''git'' \<noteq> None" and "which w ''git'' = Some git"
  shows "fetch_repo w cfg src =
     pre [Which ''git'', IsDir (source_dir src)]
       (bnd (if \<not> isdir w (source_dir src) then init_repo w src git else ret ()) (\<lambda>_.
        bnd (fetch_args src git (fixed_commit_of cfg src) (\<not> isdir w (source_dir src)))
          (\<lambda>args. check_call w args (Some (source_dir src)))))"
  using assms unfolding fetch_repo_def Let_def
  by (simp add: shutil_which_def os_path_isdir_def)

lemma fetch_events:
  assumes git: "this_yml src ''git'' \<noteq> None"
    and e: "Run (g # ''fetch'' # rest) cwd \<in> set (fst (fetch_repo w cfg src))"
  shows "\<exists>args. snd (fetch_args src g (fixed_commit_of cfg src) (\<not> isdir w (source_dir src)))
                  = Inr args
             \<and> argv_of args = Some (g # ''fetch'' # rest) \<and> cwd = Some (source_dir src)
             \<and> which w ''git'' = Some g"
proof (cases "which w ''git''")
  case None
  with git e show ?thesis
    unfolding fetch_repo_def Let_def
    by (simp add: shutil_which_def raise_GenericException_def module_globals_def)
next
  case (Some git')
  let ?init = "if \<not> isdir w (source_dir src) then init_repo w src git' else ret ()"
  let ?args = "fetch_args src git' (fixed_commit_of cfg src) (\<not> isdir w (source_dir src))"
  from e have "Run (g # ''fetch'' # rest) cwd \<in> set (fst ?init)
      \<or> (\<exists>args. snd ?args = Inr args
            \<and> Run (g # ''fetch'' # rest) cwd \<in> set (fst (check_call w args (Some (source_dir src)))))"
    unfolding fetch_repo_git_eq [OF git Some]
    by (auto simp: fst_bnd split: sum.splits if_splits)
  moreover have "Run (g # ''fetch'' # rest) cwd \<notin> set (fst ?init)"
    by (auto dest!: events_init_repo split: if_splits)
  ultimately obtain args where args: "snd ?args = Inr args"
    and run: "Run (g # ''fetch'' # rest) cwd \<in> set (fst (check_call w args (Some (source_dir src))))"
    by blast
  from events_check_call [OF run] have argv: "argv_of args = Some (g # ''fetch'' # rest)"
    and cwd: "cwd = Some (source_dir src)" by auto
  have "g = git'"
    using args argv unfolding fetch_args_def Let_def
    by (auto simp: snd_bnd subscript_def str_add_def split: sum.splits option.splits if_splits yaml.splits)
  with args argv cwd Some show ?thesis by simp
qed


text \<open>The argument vector that \<open>fetch_args\<close> builds, for a tag and for a branch.\<close>

lemma fetch_args_tag:
  assumes "this_yml src ''git'' = Some u" and "this_yml src ''tag'' = Some t"
  shows "fetch_args src g fc init =
     ret ([YStr g, YStr ''fetch'']
          @ (if \<not> truthy (disable_shallow_fetch src) \<and> \<not> is_rolling_version src
             then [YStr ''--depth=1''] else [])
          @ [u, YStr ''tag'', t])"
  using assms unfolding fetch_args_def Let_def
  by (simp add: subscript_def)

lemma fetch_args_branch:
  assumes "this_yml src ''git'' = Some u" and "this_yml src ''tag'' = None"
    and "this_yml src ''branch'' = Some (YStr b)"
  shows "fetch_args src g fc init =
     ret ([YStr g, YStr ''fetch'']
          @ (if init \<and> \<not> truthy (disable_shallow_fetch src) \<and> \<not> is_rolling_version src
                \<and> this_yml src ''commit'' = None \<and> fc = YNull
             then [YStr ''--depth=1''] else [])
          @ [u, YStr (''refs/heads/'' @ b @ '':'' @ ''refs/remotes/origin/'' @ b)])"
  using assms unfolding fetch_args_def Let_def
  by (simp add: subscript_def str_add_def)

lemma fetch_args_branch_not_str:
  assumes "this_yml src ''tag'' = None" and "\<forall>b. this_yml src ''branch'' \<noteq> Some (YStr b)"
  shows "\<exists>e. snd (fetch_args src g fc init) = Inl e"
proof (cases "this_yml src ''git''")
  case None
  with assms show ?thesis
    unfolding fetch_args_def Let_def by (simp add: subscript_def)
next
  case (Some u)
  show ?thesis
  proof (cases "this_yml src ''branch''")
    case None
    with assms Some show ?thesis
      unfolding fetch_args_def Let_def by (simp add: subscript_def)
  next
    case (Some v)
    with assms have "\<forall>b. v \<noteq> YStr b" by simp
    with assms Some \<open>this_yml src ''git'' = Some u\<close> show ?thesis
      unfolding fetch_args_def Let_def
      by (cases v) (simp_all add: subscript_def str_add_def)
  qed
qed

lemma argv_of_YStr [simp]: "argv_of (YStr s # ys) = Some zs \<longleftrightarrow> (\<exists>r. argv_of ys = Some r \<and> zs = s # r)"
  by (cases "argv_of ys") auto

lemma argv_of_single: "argv_of [v] = Some zs \<longleftrightarrow> (\<exists>s. v = YStr s \<and> zs = [s])"
  by (cases v) auto

lemma argv_of_Cons: "argv_of (v # ys) = Some zs \<longleftrightarrow> (\<exists>s r. v = YStr s \<and> argv_of ys = Some r \<and> zs = s # r)"
  by (cases v) auto

text \<open>
  Claim C7. For a git source with \<open>is_rolling_version\<close>, every \<open>git fetch\<close> among
  the events of \<open>fetch_repo\<close> has, after the executable and \<open>fetch\<close>, exactly the
  operands of the descriptor: the URL, \<open>tag\<close> and the tag, or the URL and the
  refspec of the branch. Nothing stands between \<open>fetch\<close> and the URL, which is
  where the code puts \<open>--depth=1\<close> when it passes it; this holds whether or not
  the directory existed.
\<close>

theorem fetch_repo_rolling_no_depth:
  assumes git: "this_yml src ''git'' \<noteq> None"
    and rolling: "is_rolling_version src"
    and e: "Run (g # ''fetch'' # rest) cwd \<in> set (fst (fetch_repo w cfg src))"
  shows "\<exists>url. this_yml src ''git'' = Some (YStr url)
           \<and> ((\<exists>t. this_yml src ''tag'' = Some (YStr t) \<and> rest = [url, ''tag'', t])
              \<or> (\<exists>b. this_yml src ''tag'' = None \<and> this_yml src ''branch'' = Some (YStr b)
                    \<and> rest = [url, ''refs/heads/'' @ b @ '':refs/remotes/origin/'' @ b]))"
proof -
  from fetch_events [OF git e] obtain args where
    args: "snd (fetch_args src g (fixed_commit_of cfg src) (\<not> isdir w (source_dir src))) = Inr args"
    and argv: "argv_of args = Some (g # ''fetch'' # rest)"
    by blast
  from git obtain u where u: "this_yml src ''git'' = Some u" by auto
  show ?thesis
  proof (cases "this_yml src ''tag''")
    case (Some t)
    from args argv rolling show ?thesis
      unfolding fetch_args_tag [OF u Some] u Some
      by (auto simp: argv_of_Cons)
  next
    case None
    with args fetch_args_branch_not_str [OF None] obtain b where
      b: "this_yml src ''branch'' = Some (YStr b)"
      by (metis sum.distinct(1))
    from args argv rolling show ?thesis
      unfolding fetch_args_branch [OF u None b] u None b
      by (auto simp: argv_of_Cons)
  qed
qed


text \<open>Runs of \<open>fetch_repo\<close> in which every subprocess succeeds.\<close>

lemma check_call_ok:
  assumes "argv_of args = Some argv" and "run w argv cwd = Exited 0 out"
  shows "check_call w args cwd = ([Run argv cwd], Inr ())"
  using assms by (simp add: check_call_def subprocess_call_def)

lemma fetch_repo_git_existing:
  assumes git: "this_yml src ''git'' \<noteq> None" and which: "which w ''git'' = Some g"
    and dir: "isdir w (source_dir src)"
    and args: "fetch_args src g (fixed_commit_of cfg src) False = ret args"
    and argv: "argv_of args = Some argv"
    and run: "run w argv (Some (source_dir src)) = Exited 0 out"
  shows "fetch_repo w cfg src =
     ([Which ''git'', IsDir (source_dir src), Run argv (Some (source_dir src))], Inr ())"
  unfolding fetch_repo_git_eq [OF git which]
  using dir args check_call_ok [OF argv run] by simp

lemma fetch_repo_git_first:
  assumes git: "this_yml src ''git'' = Some (YStr url)" and which: "which w ''git'' = Some g"
    and dir: "\<not> isdir w (source_dir src)"
    and mkdir: "\<not> mkdir_fails w (source_dir src)"
    and init: "run w [g, ''init''] (Some (source_dir src)) = Exited 0 out1"
    and remote: "run w [g, ''remote'', ''add'', ''origin'', url] (Some (source_dir src))
                   = Exited 0 out2"
    and args: "fetch_args src g (fixed_commit_of cfg src) True = ret args"
    and argv: "argv_of args = Some argv"
    and run: "run w argv (Some (source_dir src)) = Exited 0 out"
  shows "fetch_repo w cfg src =
     ([Which ''git'', IsDir (source_dir src), TryMkdir (source_dir src),
       Run [g, ''init''] (Some (source_dir src)),
       Run [g, ''remote'', ''add'', ''origin'', url] (Some (source_dir src)),
       Run argv (Some (source_dir src))], Inr ())"
proof -
  have g: "this_yml src ''git'' \<noteq> None" using git by simp
  have "init_repo w src g =
      ([TryMkdir (source_dir src), Run [g, ''init''] (Some (source_dir src)),
        Run [g, ''remote'', ''add'', ''origin'', url] (Some (source_dir src))], Inr ())"
    unfolding init_repo_def
    using git mkdir init remote
    by (simp add: try_mkdir_def subscript_def check_call_def subprocess_call_def)
  then show ?thesis
    unfolding fetch_repo_git_eq [OF g which]
    using dir args check_call_ok [OF argv run] by simp
qed

text \<open>
  Claim C2, as amended. Let the URL of a git source be a string. If \<open>fetch_repo\<close>
  runs \<open>git fetch --depth=1\<close> for a tag, then \<open>disable_shallow_fetch\<close> is false
  and the source is not a rolling version. If it runs \<open>git fetch --depth=1\<close> for
  a branch, then moreover no \<open>fixed_commit\<close> is pinned, the descriptor has no
  \<open>commit\<close>, and the directory did not exist. In particular a branch source
  with a pinned \<open>fixed_commit\<close> is never fetched with \<open>--depth=1\<close>. For a tag
  neither the pin nor \<open>commit\<close> is looked at.
\<close>

theorem fetch_repo_depth_only_when:
  assumes git: "this_yml src ''git'' = Some (YStr url)"
  shows "(this_yml src ''tag'' = Some (YStr t)
          \<and> Run [g, ''fetch'', ''--depth=1'', url, ''tag'', t] cwd
              \<in> set (fst (fetch_repo w cfg src))
          \<longrightarrow> \<not> truthy (disable_shallow_fetch src) \<and> \<not> is_rolling_version src)
       \<and> (this_yml src ''tag'' = None \<and> this_yml src ''branch'' = Some (YStr b)
          \<and> Run [g, ''fetch'', ''--depth=1'', url,
                  ''refs/heads/'' @ b @ '':refs/remotes/origin/'' @ b] cwd
              \<in> set (fst (fetch_repo w cfg src))
          \<longrightarrow> \<not> truthy (disable_shallow_fetch src) \<and> \<not> is_rolling_version src
              \<and> fixed_commit_of cfg src = YNull \<and> this_yml src ''commit'' = None
              \<and> \<not> isdir w (source_dir src))"
proof -
  have g: "this_yml src ''git'' \<noteq> None" using git by simp
  have tag_case: "\<not> truthy (disable_shallow_fetch src) \<and> \<not> is_rolling_version src"
    if tag: "this_yml src ''tag'' = Some (YStr t)"
      and e: "Run [g, ''fetch'', ''--depth=1'', url, ''tag'', t] cwd
                \<in> set (fst (fetch_repo w cfg src))"
  proof -
    from fetch_events [OF g e] obtain args where
      "snd (fetch_args src g (fixed_commit_of cfg src) (\<not> isdir w (source_dir src))) = Inr args"
      and "argv_of args = Some [g, ''fetch'', ''--depth=1'', url, ''tag'', t]"
      by blast
    then show ?thesis
      unfolding fetch_args_tag [OF git tag]
      by (auto split: if_splits)
  qed
  have branch_case: "\<not> truthy (disable_shallow_fetch src) \<and> \<not> is_rolling_version src
              \<and> fixed_commit_of cfg src = YNull \<and> this_yml src ''commit'' = None
              \<and> \<not> isdir w (source_dir src)"
    if tag: "this_yml src ''tag'' = None"
      and branch: "this_yml src ''branch'' = Some (YStr b)"
      and e: "Run [g, ''fetch'', ''--depth=1'', url,
                   ''refs/heads/'' @ b @ '':refs/remotes/origin/'' @ b] cwd
                \<in> set (fst (fetch_repo w cfg src))"
  proof -
    from fetch_events [OF g e] obtain args where
      "snd (fetch_args src g (fixed_commit_of cfg src) (\<not> isdir w (source_dir src))) = Inr args"
      and "argv_of args = Some [g, ''fetch'', ''--depth=1'', url,
                                ''refs/heads/'' @ b @ '':refs/remotes/origin/'' @ b]"
      by blast
    then show ?thesis
      unfolding fetch_args_branch [OF git tag branch]
      by (auto split: if_splits)
  qed
  from tag_case branch_case show ?thesis by blast
qed


text \<open>What \<open>fetch_repo\<close> does in the example environment.\<close>

lemma fetch_repo_pinned_tag:
  "fetch_repo demo_world pinned_config tag_source =
     ([Which ''git'', IsDir ''/src/demo'',
       Run [''/usr/bin/git'', ''fetch'', ''--depth=1'', ''https://example/repo.git'',
            ''tag'', ''v1.0''] (Some ''/src/demo'')],
      Inr ())"
proof -
  have "fetch_repo demo_world pinned_config tag_source =
     ([Which ''git'', IsDir (source_dir tag_source),
       Run [''/usr/bin/git'', ''fetch'', ''--depth=1'', ''https://example/repo.git'',
            ''tag'', ''v1.0''] (Some (source_dir tag_source))],
      Inr ())"
  proof (rule fetch_repo_git_existing)
    show "fetch_args tag_source ''/usr/bin/git'' (fixed_commit_of pinned_config tag_source) False =
      ret [YStr ''/usr/bin/git'', YStr ''fetch'', YStr ''--depth=1'',
           YStr ''https://example/repo.git'', YStr ''tag'', YStr ''v1.0'']"
      by (subst fetch_args_tag [of _ "YStr ''https://example/repo.git''" "YStr ''v1.0''"])
         (simp_all add: tag_source_def disable_shallow_fetch_def)
  qed (simp_all add: tag_source_def demo_world_def)
  then show ?thesis by (simp add: tag_source_def)
qed

lemma fetch_repo_tag:
  "fetch_repo demo_world no_pin tag_source =
     ([Which ''git'', IsDir ''/src/demo'',
       Run [''/usr/bin/git'', ''fetch'', ''--depth=1'', ''https://example/repo.git'',
            ''tag'', ''v1.0''] (Some ''/src/demo'')],
      Inr ())"
proof -
  have "fetch_repo demo_world no_pin tag_source =
     ([Which ''git'', IsDir (source_dir tag_source),
       Run [''/usr/bin/git'', ''fetch'', ''--depth=1'', ''https://example/repo.git'',
            ''tag'', ''v1.0''] (Some (source_dir tag_source))],
      Inr ())"
  proof (rule fetch_repo_git_existing)
    show "fetch_args tag_source ''/usr/bin/git'' (fixed_commit_of no_pin tag_source) False =
      ret [YStr ''/usr/bin/git'', YStr ''fetch'', YStr ''--depth=1'',
           YStr ''https://example/repo.git'', YStr ''tag'', YStr ''v1.0'']"
      by (subst fetch_args_tag [of _ "YStr ''https://example/repo.git''" "YStr ''v1.0''"])
         (simp_all add: tag_source_def disable_shallow_fetch_def)
  qed (simp_all add: tag_source_def demo_world_def)
  then show ?thesis by (simp add: tag_source_def)
qed

lemma fetch_repo_fresh_branch:
  "fetch_repo demo_world no_pin fresh_branch_source =
     ([Which ''git'', IsDir ''/src/new'', TryMkdir ''/src/new'',
       Run [''/usr/bin/git'', ''init''] (Some ''/src/new''),
       Run [''/usr/bin/git'', ''remote'', ''add'', ''origin'', ''https://example/repo.git'']
         (Some ''/src/new''),
       Run [''/usr/bin/git'', ''fetch'', ''--depth=1'', ''https://example/repo.git'',
            ''refs/heads/main:refs/remotes/origin/main''] (Some ''/src/new'')],
      Inr ())"
proof -
  have "fetch_repo demo_world no_pin fresh_branch_source =
     ([Which ''git'', IsDir (source_dir fresh_branch_source),
       TryMkdir (source_dir fresh_branch_source),
       Run [''/usr/bin/git'', ''init''] (Some (source_dir fresh_branch_source)),
       Run [''/usr/bin/git'', ''remote'', ''add'', ''origin'', ''https://example/repo.git'']
         (Some (source_dir fresh_branch_source)),
       Run [''/usr/bin/git'', ''fetch'', ''--depth=1'', ''https://example/repo.git'',
            ''refs/heads/main:refs/remotes/origin/main'']
         (Some (source_dir fresh_branch_source))],
      Inr ())"
  proof (rule fetch_repo_git_first)
    show "fetch_args fresh_branch_source ''/usr/bin/git''
            (fixed_commit_of no_pin fresh_branch_source) True =
      ret [YStr ''/usr/bin/git'', YStr ''fetch'', YStr ''--depth=1'',
           YStr ''https://example/repo.git'', YStr ''refs/heads/main:refs/remotes/origin/main'']"
      by (subst fetch_args_branch [of _ "YStr ''https://example/repo.git''" "''main''"])
         (simp_all add: fresh_branch_source_def branch_source_def disable_shallow_fetch_def
            fixed_commit_of_def commit_yml_of_def no_pin_def)
  qed (simp_all add: fresh_branch_source_def branch_source_def demo_world_def)
  then show ?thesis by (simp add: fresh_branch_source_def)
qed

lemma fetch_repo_rolling:
  "fetch_repo demo_world no_pin rolling_source =
     ([Which ''git'', IsDir ''/src/new'', TryMkdir ''/src/new'',
       Run [''/usr/bin/git'', ''init''] (Some ''/src/new''),
       Run [''/usr/bin/git'', ''remote'', ''add'', ''origin'', ''https://example/repo.git'']
         (Some ''/src/new''),
       Run [''/usr/bin/git'', ''fetch'', ''https://example/repo.git'',
            ''refs/heads/main:refs/remotes/origin/main''] (Some ''/src/new'')],
      Inr ())"
proof -
  have "fetch_repo demo_world no_pin rolling_source =
     ([Which ''git'', IsDir (source_dir rolling_source),
       TryMkdir (source_dir rolling_source),
       Run [''/usr/bin/git'', ''init''] (Some (source_dir rolling_source)),
       Run [''/usr/bin/git'', ''remote'', ''add'', ''origin'', ''https://example/repo.git'']
         (Some (source_dir rolling_source)),
       Run [''/usr/bin/git'', ''fetch'', ''https://example/repo.git'',
            ''refs/heads/main:refs/remotes/origin/main'']
         (Some (source_dir rolling_source))],
      Inr ())"
  proof (rule fetch_repo_git_first)
    show "fetch_args rolling_source ''/usr/bin/git''
            (fixed_commit_of no_pin rolling_source) True =
      ret [YStr ''/usr/bin/git'', YStr ''fetch'',
           YStr ''https://example/repo.git'', YStr ''refs/heads/main:refs/remotes/origin/main'']"
      by (subst fetch_args_branch [of _ "YStr ''https://example/repo.git''" "''main''"])
         (simp_all add: rolling_source_def fresh_branch_source_def branch_source_def)
  qed (simp_all add: rolling_source_def fresh_branch_source_def branch_source_def demo_world_def)
  then show ?thesis by (simp add: rolling_source_def fresh_branch_source_def)
qed

theorem fetch_repo_depth_only_when_witness:
  "Run [''/usr/bin/git'', ''fetch'', ''--depth=1'', ''https://example/repo.git'', ''tag'', ''v1.0'']
       (Some ''/src/demo'') \<in> set (fst (fetch_repo demo_world no_pin tag_source))
   \<and> \<not> truthy (disable_shallow_fetch tag_source) \<and> \<not> is_rolling_version tag_source
   \<and> Run [''/usr/bin/git'', ''fetch'', ''--depth=1'', ''https://example/repo.git'',
           ''refs/heads/main:refs/remotes/origin/main'']
       (Some ''/src/new'') \<in> set (fst (fetch_repo demo_world no_pin fresh_branch_source))
   \<and> \<not> truthy (disable_shallow_fetch fresh_branch_source)
   \<and> \<not> is_rolling_version fresh_branch_source
   \<and> fixed_commit_of no_pin fresh_branch_source = YNull
   \<and> this_yml fresh_branch_source ''commit'' = None
   \<and> \<not> isdir demo_world (source_dir fresh_branch_source)"
proof -
  have t: "Run [''/usr/bin/git'', ''fetch'', ''--depth=1'', ''https://example/repo.git'',
                ''tag'', ''v1.0'']
       (Some ''/src/demo'') \<in> set (fst (fetch_repo demo_world no_pin tag_source))"
    by (simp add: fetch_repo_tag)
  have b: "Run [''/usr/bin/git'', ''fetch'', ''--depth=1'', ''https://example/repo.git'',
           ''refs/heads/'' @ ''main'' @ '':refs/remotes/origin/'' @ ''main'']
       (Some ''/src/new'') \<in> set (fst (fetch_repo demo_world no_pin fresh_branch_source))"
    by (simp add: fetch_repo_fresh_branch)
  have gt: "this_yml tag_source ''git'' = Some (YStr ''https://example/repo.git'')"
    and tt: "this_yml tag_source ''tag'' = Some (YStr ''v1.0'')"
    by (simp_all add: tag_source_def)
  have gb: "this_yml fresh_branch_source ''git'' = Some (YStr ''https://example/repo.git'')"
    and tb: "this_yml fresh_branch_source ''tag'' = None"
    and bb: "this_yml fresh_branch_source ''branch'' = Some (YStr ''main'')"
    by (simp_all add: fresh_branch_source_def branch_source_def)
  from fetch_repo_depth_only_when [OF gt, where t = "''v1.0''" and g = "''/usr/bin/git''"
      and cwd = "Some ''/src/demo''" and w = demo_world and cfg = no_pin] tt t
  have 1: "\<not> truthy (disable_shallow_fetch tag_source) \<and> \<not> is_rolling_version tag_source"
    by blast
  from fetch_repo_depth_only_when [OF gb, where b = "''main''" and g = "''/usr/bin/git''"
      and cwd = "Some ''/src/new''" and w = demo_world and cfg = no_pin] tb bb b
  have 2: "\<not> truthy (disable_shallow_fetch fresh_branch_source)
   \<and> \<not> is_rolling_version fresh_branch_source
   \<and> fixed_commit_of no_pin fresh_branch_source = YNull
   \<and> this_yml fresh_branch_source ''commit'' = None
   \<and> \<not> isdir demo_world (source_dir fresh_branch_source)"
    by blast
  from t b 1 2 show ?thesis by simp
qed

text \<open>
  The claim as stated fails for a tag: with a \<open>fixed_commit\<close> pinned for the
  source, the tag is still fetched with \<open>--depth=1\<close>.
\<close>

theorem fetch_repo_pinned_tag_counterexample:
  "Run [''/usr/bin/git'', ''fetch'', ''--depth=1'', ''https://example/repo.git'', ''tag'', ''v1.0'']
       (Some ''/src/demo'') \<in> set (fst (fetch_repo demo_world pinned_config tag_source))
   \<and> fixed_commit_of pinned_config tag_source = YStr ''0a1b2c''"
  by (simp add: fetch_repo_pinned_tag)
     (simp add: fixed_commit_of_def commit_yml_of_def pinned_config_def tag_source_def)

theorem fetch_repo_rolling_no_depth_witness:
  "Run (''/usr/bin/git'' # ''fetch'' #
          [''https://example/repo.git'', ''refs/heads/main:refs/remotes/origin/main''])
       (Some ''/src/new'') \<in> set (fst (fetch_repo demo_world no_pin rolling_source))
   \<and> this_yml rolling_source ''git'' = Some (YStr ''https://example/repo.git'')
   \<and> this_yml rolling_source ''tag'' = None
   \<and> this_yml rolling_source ''branch'' = Some (YStr ''main'')"
proof -
  have e: "Run (''/usr/bin/git'' # ''fetch'' #
          [''https://example/repo.git'', ''refs/heads/main:refs/remotes/origin/main''])
       (Some ''/src/new'') \<in> set (fst (fetch_repo demo_world no_pin rolling_source))"
    by (simp add: fetch_repo_rolling)
  have g: "this_yml rolling_source ''git'' \<noteq> None"
    and r: "is_rolling_version rolling_source"
    by (simp_all add: rolling_source_def fresh_branch_source_def branch_source_def)
  from fetch_repo_rolling_no_depth [OF g r e] e show ?thesis
    by (auto simp: rolling_source_def fresh_branch_source_def branch_source_def)
qed

end
